theory Spec2Isabelle
  imports Complex_Main "HOL-Library.AList" "HOL-Library.Product_Lexorder"
    "HOL-Library.Char_ord" "HOL-Library.List_Lexorder"
begin

section \<open>Python values\<close>

text \<open>
  Python exceptions are values: a function that can raise returns \<open>error + 'a\<close>,
  with \<open>Inl\<close> for the exception. Python's \<open>int\<close> is \<open>int\<close>.
\<close>

datatype error = TypeError | ValueError | ZeroDivisionError

subsection \<open>Floats\<close>

text \<open>
  A Python \<open>float\<close> is an IEEE 754 binary64 value: NaN, an infinity, or a finite
  number \<open>m * 2^e\<close> with \<open>|m| < 2^53\<close> and \<open>-1074 \<le> e \<le> 971\<close>. The two zeros are
  one value here: no operation of the repository tells them apart. Arithmetic computes
  the exact result and rounds it to the nearest float, ties to the even mantissa;
  a rounded magnitude of \<open>2^1024\<close> or more is an infinity.
\<close>

datatype pyfloat = NaN | NegInf | Fin real | PosInf

text \<open>\<open>rne\<close> rounds a real to the nearest integer, ties to even; \<open>ulp_exp x\<close> is the
  exponent of the last mantissa bit of the float format at the magnitude of \<open>x\<close>.\<close>

definition rne :: "real \<Rightarrow> int" where
  "rne q =
    (let f = \<lfloor>q\<rfloor>; d = q - of_int f
     in if d < 1 / 2 then f
        else if d > 1 / 2 then f + 1
        else if even f then f else f + 1)"

definition ulp_exp :: "real \<Rightarrow> int" where
  "ulp_exp x = max (- 1074) (\<lfloor>log 2 \<bar>x\<bar>\<rfloor> - 52)"

definition round64 :: "real \<Rightarrow> pyfloat" where
  "round64 x =
    (if x = 0 then Fin 0
     else let r = of_int (rne (x / 2 powr of_int (ulp_exp x))) * 2 powr of_int (ulp_exp x)
          in if \<bar>r\<bar> \<ge> 2 ^ 1024 then (if x > 0 then PosInf else NegInf) else Fin r)"

fun float_neg :: "pyfloat \<Rightarrow> pyfloat" where
  "float_neg NaN = NaN"
| "float_neg NegInf = PosInf"
| "float_neg (Fin a) = Fin (- a)"
| "float_neg PosInf = NegInf"

fun float_abs :: "pyfloat \<Rightarrow> pyfloat" where
  "float_abs NaN = NaN"
| "float_abs NegInf = PosInf"
| "float_abs (Fin a) = Fin \<bar>a\<bar>"
| "float_abs PosInf = PosInf"

fun float_add :: "pyfloat \<Rightarrow> pyfloat \<Rightarrow> pyfloat" where
  "float_add NaN y = NaN"
| "float_add x NaN = NaN"
| "float_add PosInf NegInf = NaN"
| "float_add NegInf PosInf = NaN"
| "float_add PosInf y = PosInf"
| "float_add x PosInf = PosInf"
| "float_add NegInf y = NegInf"
| "float_add x NegInf = NegInf"
| "float_add (Fin a) (Fin b) = round64 (a + b)"

definition float_sub :: "pyfloat \<Rightarrow> pyfloat \<Rightarrow> pyfloat" where
  "float_sub x y = float_add x (float_neg y)"

text \<open>The product of an infinity and a finite or infinite value: NaN for a zero,
  otherwise the infinity of the product of the signs.\<close>

fun float_mul :: "pyfloat \<Rightarrow> pyfloat \<Rightarrow> pyfloat" where
  "float_mul NaN y = NaN"
| "float_mul x NaN = NaN"
| "float_mul (Fin a) (Fin b) = round64 (a * b)"
| "float_mul (Fin a) PosInf = (if a = 0 then NaN else if a > 0 then PosInf else NegInf)"
| "float_mul (Fin a) NegInf = (if a = 0 then NaN else if a > 0 then NegInf else PosInf)"
| "float_mul PosInf (Fin b) = (if b = 0 then NaN else if b > 0 then PosInf else NegInf)"
| "float_mul NegInf (Fin b) = (if b = 0 then NaN else if b > 0 then NegInf else PosInf)"
| "float_mul PosInf PosInf = PosInf"
| "float_mul PosInf NegInf = NegInf"
| "float_mul NegInf PosInf = NegInf"
| "float_mul NegInf NegInf = PosInf"

text \<open>\<open>x / y\<close> raises \<open>ZeroDivisionError\<close> for a zero divisor, whatever \<open>x\<close> is.\<close>

fun float_div :: "pyfloat \<Rightarrow> pyfloat \<Rightarrow> error + pyfloat" where
  "float_div x (Fin b) =
     (if b = 0 then Inl ZeroDivisionError
      else case x of
             NaN \<Rightarrow> Inr NaN
           | Fin a \<Rightarrow> Inr (round64 (a / b))
           | PosInf \<Rightarrow> Inr (if b > 0 then PosInf else NegInf)
           | NegInf \<Rightarrow> Inr (if b > 0 then NegInf else PosInf))"
| "float_div x NaN = Inr NaN"
| "float_div (Fin a) PosInf = Inr (Fin 0)"
| "float_div (Fin a) NegInf = Inr (Fin 0)"
| "float_div NaN PosInf = Inr NaN"
| "float_div NaN NegInf = Inr NaN"
| "float_div PosInf PosInf = Inr NaN"
| "float_div PosInf NegInf = Inr NaN"
| "float_div NegInf PosInf = Inr NaN"
| "float_div NegInf NegInf = Inr NaN"

text \<open>\<open>x < y\<close> and \<open>x > y\<close>: every comparison with NaN is false.\<close>

fun float_lt :: "pyfloat \<Rightarrow> pyfloat \<Rightarrow> bool" where
  "float_lt NaN y = False"
| "float_lt x NaN = False"
| "float_lt PosInf y = False"
| "float_lt x NegInf = False"
| "float_lt NegInf y = True"
| "float_lt x PosInf = True"
| "float_lt (Fin a) (Fin b) = (a < b)"

definition float_gt :: "pyfloat \<Rightarrow> pyfloat \<Rightarrow> bool" where
  "float_gt x y = float_lt y x"

text \<open>\<open>float(k)\<close> for the length of a list and \<open>a / b\<close> for two such lengths, both
  correctly rounded. A list is shorter than \<open>2^63\<close>, so neither overflows.\<close>

definition float_of_int :: "int \<Rightarrow> pyfloat" where
  "float_of_int k = round64 (of_int k)"

definition int_true_div :: "int \<Rightarrow> int \<Rightarrow> pyfloat" where
  "int_true_div a b = round64 (of_int a / of_int b)"

section \<open>The typed nullity algebra (engine/tna.py)\<close>

text \<open>The payload of \<open>Real\<close> is a float; \<open>Real.__eq__\<close> (equality up to a tolerance)
  is read as equality of values.\<close>

datatype S =
    is_AbsZero: AbsZero
  | is_MeasZero: MeasZero
  | is_ResToken: ResToken
  | is_Real: Real (Real_v: pyfloat)

text \<open>\<open>add\<close>, \<open>mul\<close> and \<open>div\<close>: the chains of \<open>isinstance\<close> tests, in the order of
  the source, each ending in \<open>raise TypeError\<close>. \<open>x.v == 0\<close> is false for NaN.\<close>

definition add :: "S \<Rightarrow> S \<Rightarrow> error + S" where
  "add x y =
    (if is_ResToken x \<or> is_ResToken y then Inr ResToken
     else if is_AbsZero x then Inr y
     else if is_AbsZero y then Inr x
     else if is_MeasZero x \<and> is_MeasZero y then Inr MeasZero
     else if is_MeasZero x \<and> is_Real y then Inr y
     else if is_Real x \<and> is_MeasZero y then Inr x
     else if is_Real x \<and> is_Real y then Inr (Real (float_add (Real_v x) (Real_v y)))
     else Inl TypeError)"

definition mul :: "S \<Rightarrow> S \<Rightarrow> error + S" where
  "mul x y =
    (if is_AbsZero x \<or> is_AbsZero y then Inr AbsZero
     else if is_Real x \<and> Real_v x = Fin 0 \<and> is_MeasZero y then Inr AbsZero
     else if is_Real y \<and> Real_v y = Fin 0 \<and> is_MeasZero x then Inr AbsZero
     else if is_ResToken x then Inr y
     else if is_ResToken y then Inr x
     else if is_MeasZero x \<and> is_MeasZero y then Inr MeasZero
     else if is_MeasZero x \<and> is_Real y \<and> Real_v y \<noteq> Fin 0 then Inr MeasZero
     else if is_MeasZero y \<and> is_Real x \<and> Real_v x \<noteq> Fin 0 then Inr MeasZero
     else if is_Real x \<and> is_Real y then Inr (Real (float_mul (Real_v x) (Real_v y)))
     else Inl TypeError)"

text \<open>In \<open>div\<close> the block D3 (\<open>if isinstance(y, MeasZero):\<close>) has four inner tests and
  no \<open>else\<close>: when none matches, control falls through to D7.\<close>

definition div_s :: "S \<Rightarrow> S \<Rightarrow> error + S" where
  "div_s x y =
    (if is_AbsZero y then Inr AbsZero
     else if is_ResToken y then Inr x
     else if is_MeasZero x \<and> is_MeasZero y then Inr ResToken
     else if is_Real x \<and> Real_v x = Fin 0 \<and> is_Real y \<and> Real_v y = Fin 0 then Inr AbsZero
     else if is_MeasZero y \<and> is_Real x \<and> Real_v x = Fin 0 then Inr AbsZero
     else if is_MeasZero y \<and> is_AbsZero x then Inr AbsZero
     else if is_MeasZero y \<and> is_Real x \<and> Real_v x \<noteq> Fin 0 then Inr MeasZero
     else if is_MeasZero y \<and> is_ResToken x then Inr MeasZero
     else if is_MeasZero x \<and> is_Real y then
       (if Real_v y \<noteq> Fin 0 then Inr MeasZero else Inr AbsZero)
     else if is_ResToken x \<and> is_Real y then
       (if Real_v y \<noteq> Fin 0 then Inr ResToken else Inr AbsZero)
     else if is_Real x \<and> is_Real y \<and> Real_v y \<noteq> Fin 0 then
       (case float_div (Real_v x) (Real_v y) of
          Inl e \<Rightarrow> Inl e
        | Inr q \<Rightarrow> Inr (Real q))
     else if is_Real x \<and> is_Real y \<and> Real_v y = Fin 0 then Inr MeasZero
     else if is_AbsZero x then Inr AbsZero
     else Inl TypeError)"

subsection \<open>Typed aggregates\<close>

text \<open>\<open>count_s\<close> sums a 1 for every entry that is not an \<open>AbsZero\<close>.\<close>

definition count_s :: "S list \<Rightarrow> int" where
  "count_s M = sum_list (map (\<lambda>x. 1) (filter (\<lambda>x. \<not> is_AbsZero x) M))"

text \<open>The loop \<open>for x in eligible[1:]: result = add(result, x)\<close>; an exception of
  \<open>add\<close> leaves the loop.\<close>

fun add_loop :: "S \<Rightarrow> S list \<Rightarrow> error + S" where
  "add_loop result [] = Inr result"
| "add_loop result (x # xs) =
     (case add result x of Inl e \<Rightarrow> Inl e | Inr r \<Rightarrow> add_loop r xs)"

definition sum_s :: "S list \<Rightarrow> error + S" where
  "sum_s M =
    (let eligible = filter (\<lambda>x. \<not> is_AbsZero x) M in
     case eligible of
       [] \<Rightarrow> Inr AbsZero
     | e0 # rest \<Rightarrow> add_loop e0 rest)"

definition avg_s :: "S list \<Rightarrow> error + S" where
  "avg_s M =
    (let k = count_s M in
     if k = 0 then Inr AbsZero
     else case sum_s M of
            Inl e \<Rightarrow> Inl e
          | Inr s \<Rightarrow> div_s s (Real (float_of_int k)))"

subsection \<open>The operation tables of the specification\<close>

text \<open>The extended addition as the specification words it: \<open>ResToken\<close> absorbs
  everything, \<open>AbsZero\<close> is the identity, two \<open>MeasZero\<close> give \<open>MeasZero\<close>, a
  \<open>MeasZero\<close> with a \<open>Real\<close> gives that \<open>Real\<close>, two \<open>Real\<close>s add as floats.\<close>

fun oplus :: "S \<Rightarrow> S \<Rightarrow> S" where
  "oplus ResToken y = ResToken"
| "oplus x ResToken = ResToken"
| "oplus AbsZero y = y"
| "oplus x AbsZero = x"
| "oplus MeasZero MeasZero = MeasZero"
| "oplus MeasZero (Real b) = Real b"
| "oplus (Real a) MeasZero = Real a"
| "oplus (Real a) (Real b) = Real (float_add a b)"

section \<open>The value classifier (engine/sensor_tna.py)\<close>

text \<open>
  A raw reading is \<open>None\<close> or a float; the configured floats may be infinite
  (\<open>max_valid\<close> defaults to \<open>float("inf")\<close>) or NaN.
\<close>

record SensorConfig =
  config_sensor_id :: string
  noise_floor :: pyfloat
  max_valid :: pyfloat
  weight :: pyfloat

record TypedReading =
  sensor_id :: string
  tr_s :: S
  timestamp :: pyfloat
  source :: string
  raw_value :: "pyfloat option"

definition classify_raw ::
  "string \<Rightarrow> pyfloat option \<Rightarrow> pyfloat \<Rightarrow> string \<Rightarrow> SensorConfig option \<Rightarrow> TypedReading" where
  "classify_raw sid raw ts src config =
    (case raw of
       None \<Rightarrow> \<lparr>sensor_id = sid, tr_s = AbsZero, timestamp = ts, source = src, raw_value = raw\<rparr>
     | Some x \<Rightarrow>
        if x = NaN
        then \<lparr>sensor_id = sid, tr_s = AbsZero, timestamp = ts, source = src, raw_value = raw\<rparr>
        else
        (let nf = (case config of Some c \<Rightarrow> noise_floor c | None \<Rightarrow> Fin 0);
             mv = (case config of Some c \<Rightarrow> max_valid c | None \<Rightarrow> PosInf)
         in if float_lt (float_abs x) nf \<or> float_gt (float_abs x) mv
            then \<lparr>sensor_id = sid, tr_s = MeasZero, timestamp = ts, source = src, raw_value = raw\<rparr>
            else \<lparr>sensor_id = sid, tr_s = Real x, timestamp = ts, source = src, raw_value = raw\<rparr>))"

section \<open>Pairwise consistency and group fusion (engine/fusion.py)\<close>

subsection \<open>Formatting\<close>

text \<open>\<open>str\<close> of an \<open>int\<close>, as an f-string prints it, and \<open>sep.join\<close>.\<close>

fun str_nat :: "nat \<Rightarrow> string" where
  "str_nat n =
    (if n < 10 then [''0123456789'' ! n]
     else str_nat (n div 10) @ [''0123456789'' ! (n mod 10)])"

declare str_nat.simps [simp del]

definition str_int :: "int \<Rightarrow> string" where
  "str_int i = (if i < 0 then CHR ''-'' # str_nat (nat (- i)) else str_nat (nat i))"

fun join :: "string \<Rightarrow> string list \<Rightarrow> string" where
  "join sep [] = []"
| "join sep [x] = x"
| "join sep (x # y # ys) = x @ sep @ join sep (y # ys)"

subsection \<open>Pairwise consistency\<close>

definition info_level :: "S \<Rightarrow> error + int" where
  "info_level x =
    (if is_AbsZero x then Inr 0
     else if is_MeasZero x then Inr 1
     else if is_Real x then Inr 2
     else if is_ResToken x then Inr 3
     else Inl TypeError)"

record PairwiseResult =
  sensor_a :: string
  sensor_b :: string
  ratio :: S
  level :: int
  agreement :: string

definition pairwise_consistency ::
  "TypedReading \<Rightarrow> TypedReading \<Rightarrow> pyfloat \<Rightarrow> error + PairwiseResult" where
  "pairwise_consistency a b eps =
    (case div_s (tr_s a) (tr_s b) of
       Inl e \<Rightarrow> Inl e
     | Inr q \<Rightarrow>
        (case info_level q of
           Inl e \<Rightarrow> Inl e
         | Inr lv \<Rightarrow>
            Inr \<lparr>sensor_a = sensor_id a, sensor_b = sensor_id b, ratio = q, level = lv,
                 agreement =
                   (if is_Real q then (if float_lt (float_abs (float_sub (Real_v q) (Fin 1))) eps
                                     then ''AGREE'' else ''DISAGREE'')
                    else if is_MeasZero q then ''INDETERMINATE''
                    else if is_AbsZero q then ''INAPPLICABLE''
                    else if is_ResToken q then ''RESOLVED''
                    else ''UNKNOWN'')\<rparr>))"

text \<open>The inner loop \<open>for j in range(i + 1, len(readings))\<close> and the outer loop over
  \<open>i\<close>; \<open>results\<close> is the list built so far.\<close>

fun pairwise_inner ::
  "TypedReading \<Rightarrow> TypedReading list \<Rightarrow> pyfloat \<Rightarrow> PairwiseResult list \<Rightarrow> error + PairwiseResult list" where
  "pairwise_inner a [] eps results = Inr results"
| "pairwise_inner a (b # bs) eps results =
     (case pairwise_consistency a b eps of
        Inl e \<Rightarrow> Inl e
      | Inr p \<Rightarrow> pairwise_inner a bs eps (results @ [p]))"

fun pairwise_outer ::
  "TypedReading list \<Rightarrow> pyfloat \<Rightarrow> PairwiseResult list \<Rightarrow> error + PairwiseResult list" where
  "pairwise_outer [] eps results = Inr results"
| "pairwise_outer (a # rest) eps results =
     (case pairwise_inner a rest eps results of
        Inl e \<Rightarrow> Inl e
      | Inr results' \<Rightarrow> pairwise_outer rest eps results')"

definition all_pairwise :: "TypedReading list \<Rightarrow> pyfloat \<Rightarrow> error + PairwiseResult list" where
  "all_pairwise readings eps = pairwise_outer readings eps []"

subsection \<open>Per-sensor alerts\<close>

record SensorAlert =
  alert_sensor_id :: string
  tna_type :: string
  alert :: string
  is_optional :: bool

definition sensor_alert_of :: "string set \<Rightarrow> TypedReading \<Rightarrow> SensorAlert" where
  "sensor_alert_of optional_ids r =
    (let is_opt = (sensor_id r \<in> optional_ids) in
     if is_AbsZero (tr_s r)
       then \<lparr>alert_sensor_id = sensor_id r, tna_type = ''0_bm'', alert = ''OFFLINE'', is_optional = is_opt\<rparr>
     else if is_MeasZero (tr_s r)
       then \<lparr>alert_sensor_id = sensor_id r, tna_type = ''0_m'', alert = ''DEGRADED'', is_optional = is_opt\<rparr>
     else if is_Real (tr_s r)
       then \<lparr>alert_sensor_id = sensor_id r, tna_type = ''Real'', alert = ''OK'', is_optional = is_opt\<rparr>
     else \<lparr>alert_sensor_id = sensor_id r, tna_type = ''<class 'tna.ResToken'>'', alert = ''UNKNOWN'',
           is_optional = is_opt\<rparr>)"

definition derive_sensor_alerts :: "TypedReading list \<Rightarrow> string set \<Rightarrow> SensorAlert list" where
  "derive_sensor_alerts readings optional_ids = map (sensor_alert_of optional_ids) readings"

subsection \<open>Group fusion\<close>

record FusionResult =
  fused_value :: S
  eligible_count :: int
  total_count :: int
  definite_count :: int
  fused_sum :: S
  pairwise :: "PairwiseResult list"
  sensor_alerts :: "SensorAlert list"
  confidence :: pyfloat
  redundancy :: pyfloat
  group_mode :: string
  reasons :: "string list"

text \<open>The counts of the mode logic: \<open>sum(1 for p in ps if ...)\<close>.\<close>

definition count_if :: "('a \<Rightarrow> bool) \<Rightarrow> 'a list \<Rightarrow> int" where
  "count_if P xs = sum_list (map (\<lambda>x. 1) (filter P xs))"

definition fuse_group ::
  "TypedReading list \<Rightarrow> int \<Rightarrow> pyfloat \<Rightarrow> int \<Rightarrow> string set option \<Rightarrow> error + FusionResult" where
  "fuse_group readings required_eligible agree_eps max_disagree optional_sensors =
    (let optional = (case optional_sensors of None \<Rightarrow> {} | Some ids \<Rightarrow> ids);
         typed_values = map tr_s readings;
         eligible = count_s typed_values;
         total = int (length typed_values)
     in case sum_s typed_values of
          Inl e \<Rightarrow> Inl e
        | Inr fsum \<Rightarrow>
     (case avg_s typed_values of
          Inl e \<Rightarrow> Inl e
        | Inr fused \<Rightarrow>
     (let definite = count_if is_Real typed_values;
          redund = (if total > 0 then int_true_div eligible total else Fin 0);
          confid = (if total > 0 then int_true_div eligible total else Fin 0);
          alerts = derive_sensor_alerts readings optional
      in if eligible < required_eligible then
           Inr \<lparr>fused_value = fused, eligible_count = eligible, total_count = total,
                definite_count = definite, fused_sum = fsum, pairwise = [],
                sensor_alerts = alerts, confidence = confid, redundancy = redund,
                group_mode = ''FAILOVER'',
                reasons = [''INSUFFICIENT_ELIGIBLE('' @ str_int eligible @ ''/''
                            @ str_int required_eligible @ '')'']\<rparr>
         else
     (case all_pairwise readings agree_eps of
          Inl e \<Rightarrow> Inl e
        | Inr pairs \<Rightarrow>
     (let required_pairs =
            filter (\<lambda>p. sensor_a p \<notin> optional \<and> sensor_b p \<notin> optional) pairs;
          semi_required_pairs =
            filter (\<lambda>p. sensor_a p \<notin> optional \<or> sensor_b p \<notin> optional) pairs;
          disagree_count = count_if (\<lambda>p. agreement p = ''DISAGREE'') required_pairs;
          semi_disagree = count_if (\<lambda>p. agreement p = ''DISAGREE'') semi_required_pairs;
          required_offline =
            filter (\<lambda>a. \<not> is_optional a \<and> alert a = ''OFFLINE'') alerts;
          required_degraded =
            filter (\<lambda>a. \<not> is_optional a \<and> alert a = ''DEGRADED'') alerts;
          required_indeterminate =
            count_if (\<lambda>p. agreement p = ''INDETERMINATE'' \<or> agreement p = ''RESOLVED'')
              required_pairs;
          decision =
            (if is_AbsZero fused then (''FAILOVER'', [''FUSED_VALUE_INAPPLICABLE''])
             else if disagree_count > max_disagree then
               (''INCONSISTENT'', [''REQUIRED_DISAGREE('' @ str_int disagree_count @ '')''])
             else if is_MeasZero fused then (''DEGRADED'', [''FUSED_VALUE_INDETERMINATE''])
             else if required_degraded \<noteq> [] then
               (''DEGRADED'',
                [''REQUIRED_SENSOR_DEGRADED(''
                   @ join '','' (map alert_sensor_id required_degraded) @ '')''])
             else if required_indeterminate > 0 then
               (''DEGRADED'',
                [''REQUIRED_INDETERMINATE_PAIRS('' @ str_int required_indeterminate @ '')''])
             else if required_offline \<noteq> [] then
               (''REDUCED'',
                [''REQUIRED_SENSOR_OFFLINE(''
                   @ join '','' (map alert_sensor_id required_offline) @ '')''])
             else if semi_disagree > max_disagree then
               (''INCONSISTENT'', [''SEMI_REQUIRED_DISAGREE('' @ str_int semi_disagree @ '')''])
             else (''OK'', []))
      in Inr \<lparr>fused_value = fused, eligible_count = eligible, total_count = total,
              definite_count = definite, fused_sum = fsum, pairwise = pairs,
              sensor_alerts = alerts, confidence = confid, redundancy = redund,
              group_mode = fst decision, reasons = snd decision\<rparr>)))))"

subsection \<open>Pairs and alerts as the specification words them\<close>

text \<open>
  Every unordered pair of a list once, the earlier entry first, in the order of the two
  nested loops. The agreement label is read off the kind of the ratio: a \<open>Real\<close> ratio
  within \<open>epsilon\<close> of 1 agrees and any other \<open>Real\<close> ratio disagrees, a \<open>MeasZero\<close> ratio
  is indeterminate, an \<open>AbsZero\<close> ratio inapplicable, a \<open>ResToken\<close> ratio resolved. The
  alert of a sensor is read off the kind of its reading; the specification names no
  alert for a \<open>ResToken\<close> reading, for which the source has \<open>UNKNOWN\<close>. A pair result
  describes two readings when it carries their identifiers, the ratio that the division
  of the algebra returns for them, and the level and label of that ratio.
\<close>

fun all_pairs :: "'a list \<Rightarrow> ('a \<times> 'a) list" where
  "all_pairs [] = []"
| "all_pairs (a # rest) = map (Pair a) rest @ all_pairs rest"

fun agreement_spec :: "pyfloat \<Rightarrow> S \<Rightarrow> string" where
  "agreement_spec eps (Real v) =
     (if float_lt (float_abs (float_sub v (Fin 1))) eps then ''AGREE'' else ''DISAGREE'')"
| "agreement_spec eps MeasZero = ''INDETERMINATE''"
| "agreement_spec eps AbsZero = ''INAPPLICABLE''"
| "agreement_spec eps ResToken = ''RESOLVED''"

fun level_spec :: "S \<Rightarrow> int" where
  "level_spec AbsZero = 0"
| "level_spec MeasZero = 1"
| "level_spec (Real v) = 2"
| "level_spec ResToken = 3"

fun alert_spec :: "S \<Rightarrow> string" where
  "alert_spec AbsZero = ''OFFLINE''"
| "alert_spec MeasZero = ''DEGRADED''"
| "alert_spec (Real v) = ''OK''"
| "alert_spec ResToken = ''UNKNOWN''"

definition pair_spec :: "pyfloat \<Rightarrow> PairwiseResult \<Rightarrow> TypedReading \<times> TypedReading \<Rightarrow> bool" where
  "pair_spec eps p ab =
    (sensor_a p = sensor_id (fst ab) \<and> sensor_b p = sensor_id (snd ab)
     \<and> div_s (tr_s (fst ab)) (tr_s (snd ab)) = Inr (ratio p)
     \<and> level p = level_spec (ratio p)
     \<and> agreement p = agreement_spec eps (ratio p))"

section \<open>Group decisions (engine/sensor\_groups.py)\<close>

record GroupSpec =
  group_name :: string
  sensors :: "string list"
  required_eligible :: int
  agree_eps :: pyfloat
  max_outliers :: int
  optional_sensors :: "string set"

text \<open>The dictionary returned by \<open>decide_group\<close>: the key \<open>group\<close>, and under
  \<open>fusion\<close> the keys \<open>group_mode\<close>, \<open>eligible_count\<close>, \<open>total_count\<close>, \<open>real_count\<close>
  (the \<open>definite_count\<close>), \<open>confidence\<close>, \<open>redundancy\<close>, \<open>fused_value\<close>, \<open>fused_sum\<close>,
  \<open>pairwise\<close>, \<open>sensor_alerts\<close> and \<open>reasons\<close>, each holding the field of the fusion
  result; the windowed decider adds the last two keys.\<close>

record GroupOut =
  out_group :: string
  fusion :: FusionResult
  stable_group_mode :: "string option"
  base_group_mode :: "string option"

definition decide_group ::
  "GroupSpec \<Rightarrow> (string \<rightharpoonup> TypedReading) \<Rightarrow> error + GroupOut" where
  "decide_group grp typed_by_sensor =
    (let readings = List.map_filter typed_by_sensor (sensors grp) in
     case fuse_group readings (required_eligible grp) (agree_eps grp) (max_outliers grp)
            (Some (optional_sensors grp)) of
       Inl e \<Rightarrow> Inl e
     | Inr fr \<Rightarrow>
         Inr \<lparr>out_group = group_name grp, fusion = fr,
              stable_group_mode = None, base_group_mode = None\<rparr>)"

section \<open>The windowed decider (engine/window\_policy.py)\<close>

record WindowParams =
  degraded_k :: int
  reduced_k :: int
  inconsistent_k :: int
  failover_k :: int
  ok_recover_k :: int
  max_history :: int

definition default_params :: WindowParams where
  "default_params =
    \<lparr>degraded_k = 3, reduced_k = 3, inconsistent_k = 2, failover_k = 5,
     ok_recover_k = 3, max_history = 10\<rparr>"

text \<open>A \<open>deque\<close> with its \<open>maxlen\<close>, oldest entry first. \<open>deque(maxlen=n)\<close> raises
  \<open>ValueError\<close> for a negative \<open>n\<close>; \<open>append\<close> on a full deque drops entries from
  the left.\<close>

record GroupWindowState =
  history :: "string list"
  history_maxlen :: int
  stable_mode :: string

definition deque_append :: "int \<Rightarrow> string list \<Rightarrow> string \<Rightarrow> string list" where
  "deque_append maxlen d x = (let d' = d @ [x] in drop (length d' - nat maxlen) d')"

record WindowedDecider =
  params :: WindowParams
  window_state :: "string \<rightharpoonup> GroupWindowState"

definition new_decider :: "WindowParams option \<Rightarrow> WindowedDecider" where
  "new_decider p =
    \<lparr>params = (case p of None \<Rightarrow> default_params | Some q \<Rightarrow> q),
     window_state = Map.empty\<rparr>"

definition get_state :: "WindowedDecider \<Rightarrow> string \<Rightarrow> error + GroupWindowState \<times> WindowedDecider" where
  "get_state d nm =
    (case window_state d nm of
       Some st \<Rightarrow> Inr (st, d)
     | None \<Rightarrow>
         if max_history (params d) < 0 then Inl ValueError
         else let st = \<lparr>history = [], history_maxlen = max_history (params d),
                         stable_mode = ''OK''\<rparr>
              in Inr (st, d\<lparr>window_state := (window_state d)(nm \<mapsto> st)\<rparr>))"

text \<open>\<open>_consecutive_suffix\<close>: the loop over \<open>reversed(hist)\<close> with its counter,
  left at the first entry that differs from the label.\<close>

fun suffix_loop :: "string list \<Rightarrow> string \<Rightarrow> int \<Rightarrow> int" where
  "suffix_loop [] label c = c"
| "suffix_loop (x # xs) label c = (if x = label then suffix_loop xs label (c + 1) else c)"

definition consecutive_suffix :: "string list \<Rightarrow> string \<Rightarrow> int" where
  "consecutive_suffix hist label = suffix_loop (rev hist) label 0"

definition update ::
  "WindowedDecider \<Rightarrow> GroupSpec \<Rightarrow> (string \<rightharpoonup> TypedReading) \<Rightarrow> error + GroupOut \<times> WindowedDecider" where
  "update d grp typed_by_sensor =
    (case decide_group grp typed_by_sensor of
       Inl e \<Rightarrow> Inl e
     | Inr out \<Rightarrow>
    (let base_mode = group_mode (fusion out) in
     case get_state d (group_name grp) of
       Inl e \<Rightarrow> Inl e
     | Inr (st, d1) \<Rightarrow>
    (let hist = deque_append (history_maxlen st) (history st) base_mode;
         p = params d1;
         stable =
           (if consecutive_suffix hist ''FAILOVER'' \<ge> failover_k p then ''FAILOVER''
            else if consecutive_suffix hist ''INCONSISTENT'' \<ge> inconsistent_k p then ''INCONSISTENT''
            else if consecutive_suffix hist ''DEGRADED'' \<ge> degraded_k p then ''DEGRADED''
            else if consecutive_suffix hist ''REDUCED'' \<ge> reduced_k p then ''REDUCED''
            else if stable_mode st \<in> {''DEGRADED'', ''INCONSISTENT'', ''FAILOVER'', ''REDUCED''}
              then (if consecutive_suffix hist ''OK'' \<ge> ok_recover_k p then ''OK''
                    else stable_mode st)
            else ''OK'');
         st' = st\<lparr>history := hist, stable_mode := stable\<rparr>
     in Inr (out\<lparr>stable_group_mode := Some stable, base_group_mode := Some base_mode\<rparr>,
             d1\<lparr>window_state := (window_state d1)(group_name grp \<mapsto> st')\<rparr>))))"

subsection \<open>The update rule as the specification words it\<close>

text \<open>The trailing consecutive run of a mode at the end of the history; the stable mode
  chosen from the runs in the priority order \<open>FAILOVER\<close>, \<open>INCONSISTENT\<close>, \<open>DEGRADED\<close>,
  \<open>REDUCED\<close>, with recovery to \<open>OK\<close> after \<open>ok_recover_k\<close> ticks; and one tick of a
  group's window.\<close>

definition trailing_run :: "string list \<Rightarrow> string \<Rightarrow> int" where
  "trailing_run hist m = int (length (takeWhile (\<lambda>x. x = m) (rev hist)))"

definition stable_spec :: "WindowParams \<Rightarrow> string \<Rightarrow> string list \<Rightarrow> string" where
  "stable_spec p cur hist =
    (if failover_k p \<le> trailing_run hist ''FAILOVER'' then ''FAILOVER''
     else if inconsistent_k p \<le> trailing_run hist ''INCONSISTENT'' then ''INCONSISTENT''
     else if degraded_k p \<le> trailing_run hist ''DEGRADED'' then ''DEGRADED''
     else if reduced_k p \<le> trailing_run hist ''REDUCED'' then ''REDUCED''
     else if cur = ''DEGRADED'' \<or> cur = ''INCONSISTENT'' \<or> cur = ''FAILOVER'' \<or> cur = ''REDUCED''
       then (if ok_recover_k p \<le> trailing_run hist ''OK'' then ''OK'' else cur)
     else ''OK'')"

definition window_step :: "WindowParams \<Rightarrow> GroupWindowState \<Rightarrow> string \<Rightarrow> GroupWindowState" where
  "window_step p st raw =
    (let h = history st @ [raw];
         hist = drop (length h - nat (history_maxlen st)) h
     in st\<lparr>history := hist, stable_mode := stable_spec p (stable_mode st) hist\<rparr>)"

text \<open>A group of two required sensors and a tick in which the second one reads
  \<open>MeasZero\<close>.\<close>

definition demo_group :: GroupSpec where
  "demo_group = \<lparr>group_name = ''alt'', sensors = [''a'', ''b''], required_eligible = 2,
      agree_eps = Fin 1, max_outliers = 0, optional_sensors = {}\<rparr>"

definition demo_readings :: "string \<rightharpoonup> TypedReading" where
  "demo_readings =
     [''a'' \<mapsto> \<lparr>sensor_id = ''a'', tr_s = Real (Fin 1), timestamp = Fin 0, source = ''SIM'',
                 raw_value = Some (Fin 1)\<rparr>,
      ''b'' \<mapsto> \<lparr>sensor_id = ''b'', tr_s = MeasZero, timestamp = Fin 0, source = ''SIM'',
                 raw_value = Some (Fin 0)\<rparr>]"
section \<open>Properties of float rounding\<close>

lemma rne_of_int [simp]: "rne (of_int n) = n"
  by (simp add: rne_def)




lemma round64_dyadic:
  assumes m: "\<bar>m\<bar> < 2 ^ 53" and e: "- 1074 \<le> e" "e \<le> 971"
  shows "round64 (of_int m * 2 powr of_int e) = Fin (of_int m * 2 powr of_int e)"
proof (cases "m = 0")
  case True
  then show ?thesis by (simp add: round64_def)
next
  case False
  let ?x = "of_int m * 2 powr of_int e :: real"
  have xne: "?x \<noteq> 0" using False by simp
  have ax: "\<bar>?x\<bar> = of_int \<bar>m\<bar> * 2 powr of_int e" by (simp add: abs_mult)
  have "1 \<le> \<bar>m\<bar>" using False by linarith
  then have m1: "1 \<le> (of_int \<bar>m\<bar> :: real)" by (metis of_int_1_le_iff)
  have m2: "(of_int \<bar>m\<bar> :: real) < 2 ^ 53"
    using m by (metis of_int_less_numeral_power_cancel_iff)
  have lb: "of_int e \<le> log 2 \<bar>?x\<bar>"
  proof -
    have "2 powr of_int e \<le> \<bar>?x\<bar>" unfolding ax using m1 by (simp add: mult_le_cancel_right1)
    moreover have "0 < \<bar>?x\<bar>" using xne by (simp del: abs_mult)
    ultimately show ?thesis using le_log_iff [of 2 "\<bar>?x\<bar>" "of_int e"] by linarith
  qed
  have ub: "log 2 \<bar>?x\<bar> < of_int e + 53"
  proof -
    have "\<bar>?x\<bar> < 2 ^ 53 * 2 powr of_int e" unfolding ax using m2 by simp
    also have "\<dots> = 2 powr (of_int e + 53)"
      by (simp add: powr_add)
    finally have "\<bar>?x\<bar> < 2 powr (of_int e + 53)" .
    moreover have "0 < \<bar>?x\<bar>" using xne by (simp del: abs_mult)
    ultimately show ?thesis using log_less_iff [of 2 "\<bar>?x\<bar>" "of_int e + 53"] by linarith
  qed
  from ub have "\<lfloor>log 2 \<bar>?x\<bar>\<rfloor> < e + 53" by (simp add: floor_less_iff)
  then have ule: "ulp_exp ?x \<le> e" using e by (simp add: ulp_exp_def)
  define u where "u = ulp_exp ?x"
  define k where "k = nat (e - u)"
  have ek: "e = u + int k" using ule by (simp add: k_def u_def)
  have q: "?x / 2 powr of_int u = of_int (m * 2 ^ k)"
    by (simp add: ek powr_add powr_realpow)
  have r: "of_int (rne (?x / 2 powr of_int u)) * 2 powr of_int u = ?x"
    unfolding q rne_of_int by (simp add: ek powr_add powr_realpow)
  have p: "(2::real) powr of_int e \<le> 2 powr 971"
    by (rule powr_mono) (use e in auto)
  have "\<bar>?x\<bar> < 2 ^ 53 * 2 powr of_int e" unfolding ax using m2 by simp
  also have "\<dots> \<le> 2 ^ 53 * 2 powr 971"
    using p by (rule mult_left_mono) simp
  also have "(2::real) ^ 53 * 2 powr 971 = 2 ^ 1024"
    by simp
  finally have small: "\<not> \<bar>?x\<bar> \<ge> 2 ^ 1024" by simp
  show ?thesis
    using xne small r unfolding round64_def u_def [symmetric] Let_def
    by (simp del: of_int_mult)
qed

lemma round64_int:
  assumes "\<bar>n\<bar> < 2 ^ 53"
  shows "round64 (of_int n) = Fin (of_int n)"
  using round64_dyadic [OF assms, of 0] by simp

lemma round64_0 [simp]: "round64 0 = Fin 0"
  by (simp add: round64_def)

lemma round64_1 [simp]: "round64 1 = Fin 1"
  using round64_int [of 1] by simp

lemma round64_numeral [simp]:
  "(numeral n :: int) < 2 ^ 53 \<Longrightarrow> round64 (numeral n) = Fin (numeral n)"
  using round64_int [of "numeral n"] by simp

lemma round64_neg_numeral [simp]:
  "(numeral n :: int) < 2 ^ 53 \<Longrightarrow> round64 (- numeral n) = Fin (- numeral n)"
  using round64_int [of "- numeral n"] by simp



lemma float_div_total: "y \<noteq> Fin 0 \<Longrightarrow> \<exists>q. float_div x y = Inr q"
  by (cases x; cases y) simp_all



section \<open>Properties of the algebra\<close>

lemma add_oplus: "add x y = Inr (oplus x y)"
  by (cases x; cases y; simp add: add_def)

lemma add_loop_foldl: "add_loop r xs = Inr (foldl oplus r xs)"
  by (induction xs arbitrary: r) (simp_all add: add_oplus)

lemma is_AbsZero_iff: "is_AbsZero x \<longleftrightarrow> x = AbsZero"
  by (cases x) simp_all

lemma count_s_length: "count_s M = int (length (filter (\<lambda>x. x \<noteq> AbsZero) M))"
  by (induction M) (simp_all add: count_s_def is_AbsZero_iff)

lemma sum_s_foldl:
  "sum_s M = Inr (case filter (\<lambda>x. x \<noteq> AbsZero) M of [] \<Rightarrow> AbsZero | e0 # rest \<Rightarrow> foldl oplus e0 rest)"
  by (simp add: sum_s_def is_AbsZero_iff add_loop_foldl split: list.split)

lemma div_s_total: "\<exists>r. div_s x y = Inr r"
proof (cases "is_Real x \<and> is_Real y \<and> Real_v y \<noteq> Fin 0")
  case True
  then obtain q where "float_div (Real_v x) (Real_v y) = Inr q"
    using float_div_total by blast
  with True show ?thesis by (cases x; cases y; simp add: div_s_def)
next
  case False
  then show ?thesis by (cases x; cases y; simp add: div_s_def)
qed

text \<open>
  Claim C2. The extended division follows the table of the specification: anything
  divided by \<open>AbsZero\<close> is \<open>AbsZero\<close>; anything divided by \<open>ResToken\<close> is unchanged;
  \<open>MeasZero / MeasZero\<close> is \<open>ResToken\<close>; \<open>Real 0 / Real 0\<close> is \<open>AbsZero\<close>; a nonzero
  \<open>Real\<close> divided by \<open>MeasZero\<close> is \<open>MeasZero\<close>; \<open>AbsZero / MeasZero\<close> is \<open>AbsZero\<close>;
  \<open>MeasZero\<close> and \<open>ResToken\<close> divided by a \<open>Real\<close> stay as they are when the divisor
  is nonzero and become \<open>AbsZero\<close> when it is zero; two \<open>Real\<close>s divide as floats when
  the divisor is nonzero (the float division then returns, and its quotient is the
  payload of the result), and a nonzero \<open>Real\<close> divided by \<open>Real 0\<close> is \<open>MeasZero\<close>;
  \<open>AbsZero\<close> divided by any \<open>Real\<close> is \<open>AbsZero\<close>. Nonzero is the source's \<open>v != 0\<close>,
  which holds of NaN and the infinities.
\<close>

theorem div_table:
  "div_s x AbsZero = Inr AbsZero
   \<and> div_s x ResToken = Inr x
   \<and> div_s MeasZero MeasZero = Inr ResToken
   \<and> div_s (Real (Fin 0)) (Real (Fin 0)) = Inr AbsZero
   \<and> (a \<noteq> Fin 0 \<longrightarrow> div_s (Real a) MeasZero = Inr MeasZero)
   \<and> div_s AbsZero MeasZero = Inr AbsZero
   \<and> (b \<noteq> Fin 0 \<longrightarrow> div_s MeasZero (Real b) = Inr MeasZero)
   \<and> div_s MeasZero (Real (Fin 0)) = Inr AbsZero
   \<and> (b \<noteq> Fin 0 \<longrightarrow> div_s ResToken (Real b) = Inr ResToken)
   \<and> div_s ResToken (Real (Fin 0)) = Inr AbsZero
   \<and> (b \<noteq> Fin 0 \<longrightarrow>
        (\<exists>q. float_div a b = Inr q \<and> div_s (Real a) (Real b) = Inr (Real q)))
   \<and> (v \<noteq> 0 \<longrightarrow> div_s (Real (Fin u)) (Real (Fin v)) = Inr (Real (round64 (u / v))))
   \<and> (a \<noteq> Fin 0 \<longrightarrow> div_s (Real a) (Real (Fin 0)) = Inr MeasZero)
   \<and> div_s AbsZero (Real b) = Inr AbsZero"
proof -
  have d1: "\<exists>q. float_div a b = Inr q \<and> div_s (Real a) (Real b) = Inr (Real q)"
    if nz: "b \<noteq> Fin 0"
  proof -
    obtain q where "float_div a b = Inr q" using float_div_total [OF nz] by blast
    with nz show ?thesis by (simp add: div_s_def)
  qed
  have rest: "div_s x AbsZero = Inr AbsZero \<and> div_s x ResToken = Inr x"
    by (cases x) (simp_all add: div_s_def)
  show ?thesis using d1 rest by (simp add: div_s_def)
qed

theorem div_table_witness:
  "div_s (Real (Fin 6)) AbsZero = Inr AbsZero
   \<and> div_s (Real (Fin 6)) ResToken = Inr (Real (Fin 6))
   \<and> div_s (Real (Fin 6)) MeasZero = Inr MeasZero
   \<and> div_s MeasZero (Real (Fin 3)) = Inr MeasZero
   \<and> div_s ResToken (Real (Fin 3)) = Inr ResToken
   \<and> div_s (Real (Fin 6)) (Real (Fin 3)) = Inr (Real (Fin 2))
   \<and> div_s (Real (Fin 6)) (Real (Fin 0)) = Inr MeasZero
   \<and> div_s AbsZero (Real (Fin 3)) = Inr AbsZero"
  using div_table [of "Real (Fin 6)" "Fin 6" "Fin 3" 3 6] by simp

text \<open>
  Claim C7. \<open>count_s\<close> is the number of entries other than \<open>AbsZero\<close>; \<open>sum_s\<close> is
  the left fold of the extended addition over those entries, in order, and \<open>AbsZero\<close>
  when there are none; \<open>avg_s\<close> is \<open>AbsZero\<close> when the count is 0 and otherwise the sum
  divided by \<open>Real\<close> of the count as a float. The average of 10, 10 and \<open>MeasZero\<close> is
  the float \<open>20 / 3\<close> (the quotient rounded), the average of 10, 10 and \<open>AbsZero\<close> is
  10.
\<close>

theorem aggregates_spec:
  "count_s M = int (length (filter (\<lambda>x. x \<noteq> AbsZero) M))
   \<and> sum_s M = Inr (case filter (\<lambda>x. x \<noteq> AbsZero) M of
                     [] \<Rightarrow> AbsZero
                   | e0 # rest \<Rightarrow> foldl oplus e0 rest)
   \<and> avg_s M = (if count_s M = 0 then Inr AbsZero
                else div_s (case filter (\<lambda>x. x \<noteq> AbsZero) M of
                              [] \<Rightarrow> AbsZero
                            | e0 # rest \<Rightarrow> foldl oplus e0 rest)
                           (Real (float_of_int (count_s M))))
   \<and> avg_s [Real (Fin 10), Real (Fin 10), MeasZero] = Inr (Real (round64 (20 / 3)))
   \<and> avg_s [Real (Fin 10), Real (Fin 10), AbsZero] = Inr (Real (Fin 10))"
proof -
  have c: "count_s M = int (length (filter (\<lambda>x. x \<noteq> AbsZero) M))"
    by (rule count_s_length)
  have s: "sum_s M = Inr (case filter (\<lambda>x. x \<noteq> AbsZero) M of
                     [] \<Rightarrow> AbsZero
                   | e0 # rest \<Rightarrow> foldl oplus e0 rest)"
    by (rule sum_s_foldl)
  have a: "avg_s M = (if count_s M = 0 then Inr AbsZero
                else div_s (case filter (\<lambda>x. x \<noteq> AbsZero) M of
                              [] \<Rightarrow> AbsZero
                            | e0 # rest \<Rightarrow> foldl oplus e0 rest)
                           (Real (float_of_int (count_s M))))"
    unfolding avg_s_def Let_def s by simp
  have e1: "avg_s [Real (Fin 10), Real (Fin 10), MeasZero] = Inr (Real (round64 (20 / 3)))"
    by (simp add: avg_s_def count_s_def sum_s_def add_def div_s_def float_of_int_def)
  have e2: "avg_s [Real (Fin 10), Real (Fin 10), AbsZero] = Inr (Real (Fin 10))"
    by (simp add: avg_s_def count_s_def sum_s_def add_def div_s_def float_of_int_def)
  from c s a e1 e2 show ?thesis by blast
qed




text \<open>
  Claim C10. \<open>add\<close>, \<open>mul\<close> and \<open>div\<close> are closed and total on the four kinds of
  element: for every pair of operands each returns an element, so the final
  \<open>raise TypeError\<close> of each is never reached (nor does the float division of \<open>div\<close>
  raise); and \<open>ResToken\<close> divided by \<open>MeasZero\<close> is \<open>MeasZero\<close>.
\<close>

theorem operations_total:
  "(\<exists>r. add x y = Inr r \<and> (is_AbsZero r \<or> is_MeasZero r \<or> is_ResToken r \<or> is_Real r))
   \<and> (\<exists>r. mul x y = Inr r \<and> (is_AbsZero r \<or> is_MeasZero r \<or> is_ResToken r \<or> is_Real r))
   \<and> (\<exists>r. div_s x y = Inr r \<and> (is_AbsZero r \<or> is_MeasZero r \<or> is_ResToken r \<or> is_Real r))
   \<and> add x y \<noteq> Inl TypeError \<and> mul x y \<noteq> Inl TypeError \<and> div_s x y \<noteq> Inl TypeError
   \<and> div_s ResToken MeasZero = Inr MeasZero"
proof -
  have k: "is_AbsZero r \<or> is_MeasZero r \<or> is_ResToken r \<or> is_Real r" for r
    by (cases r) simp_all
  have a: "\<exists>r. add x y = Inr r" by (cases x; cases y; simp add: add_def)
  have m: "\<exists>r. mul x y = Inr r" by (cases x; cases y; simp add: mul_def)
  have d: "\<exists>r. div_s x y = Inr r" by (rule div_s_total)
  have e: "div_s ResToken MeasZero = Inr MeasZero" by (simp add: div_s_def)
  from a m d e k show ?thesis by fastforce
qed

section \<open>Properties of fusion and classification\<close>

lemma info_level_spec: "info_level x = Inr (level_spec x)"
  by (cases x; simp add: info_level_def)

lemma avg_s_total: "\<exists>r. avg_s M = Inr r"
  using div_s_total by (simp add: avg_s_def Let_def sum_s_foldl)

lemma pairwise_consistency_spec:
  "\<exists>p. pairwise_consistency a b eps = Inr p \<and> pair_spec eps p (a, b)"
proof -
  obtain q where q: "div_s (tr_s a) (tr_s b) = Inr q" using div_s_total by blast
  show ?thesis
    by (cases q) (simp_all add: pairwise_consistency_def q info_level_spec pair_spec_def)
qed

lemma pairwise_inner_spec:
  "\<exists>ps. pairwise_inner a bs eps acc = Inr (acc @ ps)
        \<and> list_all2 (pair_spec eps) ps (map (Pair a) bs)"
proof (induction bs arbitrary: acc)
  case Nil
  show ?case by simp
next
  case (Cons b bs)
  obtain p where p: "pairwise_consistency a b eps = Inr p" "pair_spec eps p (a, b)"
    using pairwise_consistency_spec by blast
  obtain ps where ps: "pairwise_inner a bs eps (acc @ [p]) = Inr ((acc @ [p]) @ ps)"
      "list_all2 (pair_spec eps) ps (map (Pair a) bs)"
    using Cons.IH [of "acc @ [p]"] by blast
  have "pairwise_inner a (b # bs) eps acc = Inr (acc @ (p # ps))"
    using p(1) ps(1) by simp
  moreover have "list_all2 (pair_spec eps) (p # ps) (map (Pair a) (b # bs))"
    using p(2) ps(2) by simp
  ultimately show ?case by blast
qed

lemma pairwise_outer_spec:
  "\<exists>ps. pairwise_outer rs eps acc = Inr (acc @ ps)
        \<and> list_all2 (pair_spec eps) ps (all_pairs rs)"
proof (induction rs arbitrary: acc)
  case Nil
  show ?case by simp
next
  case (Cons a rest)
  obtain ps where ps: "pairwise_inner a rest eps acc = Inr (acc @ ps)"
      "list_all2 (pair_spec eps) ps (map (Pair a) rest)"
    using pairwise_inner_spec by blast
  obtain qs where qs: "pairwise_outer rest eps (acc @ ps) = Inr ((acc @ ps) @ qs)"
      "list_all2 (pair_spec eps) qs (all_pairs rest)"
    using Cons.IH [of "acc @ ps"] by blast
  have "pairwise_outer (a # rest) eps acc = Inr (acc @ (ps @ qs))"
    using ps(1) qs(1) by simp
  moreover have "list_all2 (pair_spec eps) (ps @ qs) (all_pairs (a # rest))"
    using ps(2) qs(2) by (simp add: list_all2_appendI)
  ultimately show ?case by blast
qed

lemma all_pairwise_spec:
  "\<exists>ps. all_pairwise rs eps = Inr ps \<and> list_all2 (pair_spec eps) ps (all_pairs rs)"
  unfolding all_pairwise_def using pairwise_outer_spec [of rs eps "[]"] by simp

lemma sensor_alert_of_fields:
  "alert_sensor_id (sensor_alert_of opt r) = sensor_id r
   \<and> alert (sensor_alert_of opt r) = alert_spec (tr_s r)
   \<and> is_optional (sensor_alert_of opt r) = (sensor_id r \<in> opt)"
  by (cases "tr_s r") (simp_all add: sensor_alert_of_def)

lemma alert_spec_iff:
  "(alert_spec s = ''DEGRADED'') = (s = MeasZero)"
  "(alert_spec s = ''OFFLINE'') = (s = AbsZero)"
  by (cases s; simp)+

lemma count_if_length: "count_if P xs = int (length (filter P xs))"
  by (induction xs) (simp_all add: count_if_def)

lemma count_if_pos: "count_if P xs > 0 \<longleftrightarrow> (\<exists>x\<in>set xs. P x)"
  by (simp add: count_if_length filter_empty_conv)

lemma filter_ne_Nil: "filter P xs \<noteq> [] \<longleftrightarrow> (\<exists>x\<in>set xs. P x)"
  by (simp add: filter_empty_conv)

text \<open>
  Claim C1. \<open>fuse_group\<close> returns a result for every list of readings and every
  parameter. Its eligible count is the number of readings that are not \<open>AbsZero\<close>, its
  fused value their typed average, and its alerts name the sensors in order, each
  \<open>OFFLINE\<close> for an \<open>AbsZero\<close> reading, \<open>DEGRADED\<close> for a \<open>MeasZero\<close> one and \<open>OK\<close> for a
  \<open>Real\<close> one, tagged optional when the sensor is in the optional set. When fewer
  readings are eligible than required the mode is \<open>FAILOVER\<close> and no pair is analysed.
  Otherwise the pairs of the result are the unordered pairs of the readings, each with
  the ratio of its two readings and the label of that ratio, and the mode is the first
  match of: the fused value is \<open>AbsZero\<close> (\<open>FAILOVER\<close>); more than \<open>max_disagree\<close> pairs
  of two non-optional sensors disagree (\<open>INCONSISTENT\<close>); the fused value is \<open>MeasZero\<close>
  (\<open>DEGRADED\<close>); the reading of a non-optional sensor is \<open>MeasZero\<close> (\<open>DEGRADED\<close>); a
  pair of two non-optional sensors is indeterminate or resolved (\<open>DEGRADED\<close>); the
  reading of a non-optional sensor is \<open>AbsZero\<close> (\<open>REDUCED\<close>); more than \<open>max_disagree\<close>
  pairs with at least one non-optional sensor disagree (\<open>INCONSISTENT\<close>); and \<open>OK\<close>
  when nothing matches.
\<close>

theorem fuse_group_mode:
  "\<exists>fr. fuse_group readings req eps maxd opts = Inr fr
     \<and> eligible_count fr = int (length (filter (\<lambda>r. tr_s r \<noteq> AbsZero) readings))
     \<and> avg_s (map tr_s readings) = Inr (fused_value fr)
     \<and> (let opt = (case opts of None \<Rightarrow> {} | Some ids \<Rightarrow> ids) in
        map alert_sensor_id (sensor_alerts fr) = map sensor_id readings
      \<and> map alert (sensor_alerts fr) = map (\<lambda>r. alert_spec (tr_s r)) readings
      \<and> map is_optional (sensor_alerts fr) = map (\<lambda>r. sensor_id r \<in> opt) readings
      \<and> (if eligible_count fr < req then group_mode fr = ''FAILOVER'' \<and> pairwise fr = []
         else list_all2 (pair_spec eps) (pairwise fr) (all_pairs readings)
            \<and> group_mode fr =
              (if fused_value fr = AbsZero then ''FAILOVER''
               else if int (length (filter (\<lambda>p. sensor_a p \<notin> opt \<and> sensor_b p \<notin> opt
                                              \<and> agreement p = ''DISAGREE'') (pairwise fr))) > maxd
                 then ''INCONSISTENT''
               else if fused_value fr = MeasZero then ''DEGRADED''
               else if \<exists>r\<in>set readings. sensor_id r \<notin> opt \<and> tr_s r = MeasZero
                 then ''DEGRADED''
               else if \<exists>p\<in>set (pairwise fr). sensor_a p \<notin> opt \<and> sensor_b p \<notin> opt
                         \<and> (agreement p = ''INDETERMINATE'' \<or> agreement p = ''RESOLVED'')
                 then ''DEGRADED''
               else if \<exists>r\<in>set readings. sensor_id r \<notin> opt \<and> tr_s r = AbsZero
                 then ''REDUCED''
               else if int (length (filter (\<lambda>p. (sensor_a p \<notin> opt \<or> sensor_b p \<notin> opt)
                                              \<and> agreement p = ''DISAGREE'') (pairwise fr))) > maxd
                 then ''INCONSISTENT''
               else ''OK'')))"
proof -
  obtain fsum where fsum: "sum_s (map tr_s readings) = Inr fsum"
    by (simp add: sum_s_foldl)
  obtain fused where fused: "avg_s (map tr_s readings) = Inr fused"
    using avg_s_total by blast
  obtain ps where ps: "all_pairwise readings eps = Inr ps"
      and ps2: "list_all2 (pair_spec eps) ps (all_pairs readings)"
    using all_pairwise_spec by blast
  have cnt: "count_s (map tr_s readings)
      = int (length (filter (\<lambda>r. tr_s r \<noteq> AbsZero) readings))"
    by (simp add: count_s_length filter_map o_def)
  have al: "map alert_sensor_id (derive_sensor_alerts readings opt) = map sensor_id readings"
       "map alert (derive_sensor_alerts readings opt) = map (\<lambda>r. alert_spec (tr_s r)) readings"
       "map is_optional (derive_sensor_alerts readings opt) = map (\<lambda>r. sensor_id r \<in> opt) readings"
    for opt
    by (simp_all add: derive_sensor_alerts_def sensor_alert_of_fields)
  have deg: "(filter (\<lambda>a. \<not> is_optional a \<and> alert a = ''DEGRADED'')
               (derive_sensor_alerts readings opt) \<noteq> [])
             = (\<exists>r\<in>set readings. sensor_id r \<notin> opt \<and> tr_s r = MeasZero)" for opt
    by (simp add: filter_empty_conv derive_sensor_alerts_def sensor_alert_of_fields
        alert_spec_iff)
  have off: "(filter (\<lambda>a. \<not> is_optional a \<and> alert a = ''OFFLINE'')
               (derive_sensor_alerts readings opt) \<noteq> [])
             = (\<exists>r\<in>set readings. sensor_id r \<notin> opt \<and> tr_s r = AbsZero)" for opt
    by (simp add: filter_empty_conv derive_sensor_alerts_def sensor_alert_of_fields
        alert_spec_iff)
  have mz: "is_MeasZero fused = (fused = MeasZero)" by (cases fused) simp_all
  show ?thesis
  proof (cases "count_s (map tr_s readings) < req")
    case True
    then show ?thesis
      unfolding fuse_group_def Let_def fsum fused
      by (simp add: cnt al)
  next
    case False
    then show ?thesis
      unfolding fuse_group_def Let_def fsum fused ps deg off
      using ps2
      by (simp add: cnt al count_if_length filter_empty_conv is_AbsZero_iff mz if_distrib [of fst]
          split del: if_split cong: if_cong)
  qed
qed

theorem fuse_group_mode_witness:
  "(\<exists>fr. fuse_group
          [\<lparr>sensor_id = ''a'', tr_s = Real (Fin 10), timestamp = Fin 0, source = ''SIM'',
            raw_value = Some (Fin 10)\<rparr>,
           \<lparr>sensor_id = ''b'', tr_s = Real (Fin 1), timestamp = Fin 0, source = ''SIM'',
            raw_value = Some (Fin 1)\<rparr>]
          2 (Fin 1) 0 None = Inr fr
      \<and> map agreement (pairwise fr) = [''DISAGREE'']
      \<and> group_mode fr = ''INCONSISTENT'')
   \<and> (\<exists>fr. fuse_group
          [\<lparr>sensor_id = ''a'', tr_s = Real (Fin 1), timestamp = Fin 0, source = ''SIM'',
            raw_value = Some (Fin 1)\<rparr>,
           \<lparr>sensor_id = ''b'', tr_s = Real (Fin 1), timestamp = Fin 0, source = ''SIM'',
            raw_value = Some (Fin 1)\<rparr>,
           \<lparr>sensor_id = ''c'', tr_s = AbsZero, timestamp = Fin 0, source = ''SIM'',
            raw_value = None\<rparr>]
          2 (Fin 1) 0 None = Inr fr
      \<and> map agreement (pairwise fr) = [''AGREE'', ''INAPPLICABLE'', ''INAPPLICABLE'']
      \<and> map alert (sensor_alerts fr) = [''OK'', ''OK'', ''OFFLINE'']
      \<and> group_mode fr = ''REDUCED'')
   \<and> (\<exists>fr. fuse_group
          [\<lparr>sensor_id = ''a'', tr_s = Real (Fin 10), timestamp = Fin 0, source = ''SIM'',
            raw_value = Some (Fin 10)\<rparr>,
           \<lparr>sensor_id = ''b'', tr_s = AbsZero, timestamp = Fin 0, source = ''SIM'',
            raw_value = None\<rparr>,
           \<lparr>sensor_id = ''c'', tr_s = AbsZero, timestamp = Fin 0, source = ''SIM'',
            raw_value = None\<rparr>]
          2 (Fin 1) 0 None = Inr fr
      \<and> eligible_count fr = 1 \<and> group_mode fr = ''FAILOVER'' \<and> pairwise fr = [])"
proof -
  have flip: "(Real v = ratio p) = (ratio p = Real v)" "(AbsZero = ratio p) = (ratio p = AbsZero)"
    "(Real v = fused_value fr) = (fused_value fr = Real v)"
    for v p fr by auto
  have a: "\<exists>fr. fuse_group
          [\<lparr>sensor_id = ''a'', tr_s = Real (Fin 10), timestamp = Fin 0, source = ''SIM'',
            raw_value = Some (Fin 10)\<rparr>,
           \<lparr>sensor_id = ''b'', tr_s = Real (Fin 1), timestamp = Fin 0, source = ''SIM'',
            raw_value = Some (Fin 1)\<rparr>]
          2 (Fin 1) 0 None = Inr fr
      \<and> map agreement (pairwise fr) = [''DISAGREE'']
      \<and> group_mode fr = ''INCONSISTENT''"
    using fuse_group_mode
      [of "[\<lparr>sensor_id = ''a'', tr_s = Real (Fin 10), timestamp = Fin 0, source = ''SIM'',
            raw_value = Some (Fin 10)\<rparr>,
           \<lparr>sensor_id = ''b'', tr_s = Real (Fin 1), timestamp = Fin 0, source = ''SIM'',
            raw_value = Some (Fin 1)\<rparr>]" 2 "Fin 1" 0 None]
    by (auto simp add: Let_def list_all2_Cons2 pair_spec_def div_s_def float_sub_def
        avg_s_def count_s_def sum_s_def add_def float_of_int_def flip)
  have b: "\<exists>fr. fuse_group
          [\<lparr>sensor_id = ''a'', tr_s = Real (Fin 1), timestamp = Fin 0, source = ''SIM'',
            raw_value = Some (Fin 1)\<rparr>,
           \<lparr>sensor_id = ''b'', tr_s = Real (Fin 1), timestamp = Fin 0, source = ''SIM'',
            raw_value = Some (Fin 1)\<rparr>,
           \<lparr>sensor_id = ''c'', tr_s = AbsZero, timestamp = Fin 0, source = ''SIM'',
            raw_value = None\<rparr>]
          2 (Fin 1) 0 None = Inr fr
      \<and> map agreement (pairwise fr) = [''AGREE'', ''INAPPLICABLE'', ''INAPPLICABLE'']
      \<and> map alert (sensor_alerts fr) = [''OK'', ''OK'', ''OFFLINE'']
      \<and> group_mode fr = ''REDUCED''"
    using fuse_group_mode
      [of "[\<lparr>sensor_id = ''a'', tr_s = Real (Fin 1), timestamp = Fin 0, source = ''SIM'',
            raw_value = Some (Fin 1)\<rparr>,
           \<lparr>sensor_id = ''b'', tr_s = Real (Fin 1), timestamp = Fin 0, source = ''SIM'',
            raw_value = Some (Fin 1)\<rparr>,
           \<lparr>sensor_id = ''c'', tr_s = AbsZero, timestamp = Fin 0, source = ''SIM'',
            raw_value = None\<rparr>]" 2 "Fin 1" 0 None]
    by (auto simp add: Let_def list_all2_Cons2 pair_spec_def div_s_def float_sub_def
        avg_s_def count_s_def sum_s_def add_def float_of_int_def flip)
  have c: "\<exists>fr. fuse_group
          [\<lparr>sensor_id = ''a'', tr_s = Real (Fin 10), timestamp = Fin 0, source = ''SIM'',
            raw_value = Some (Fin 10)\<rparr>,
           \<lparr>sensor_id = ''b'', tr_s = AbsZero, timestamp = Fin 0, source = ''SIM'',
            raw_value = None\<rparr>,
           \<lparr>sensor_id = ''c'', tr_s = AbsZero, timestamp = Fin 0, source = ''SIM'',
            raw_value = None\<rparr>]
          2 (Fin 1) 0 None = Inr fr
      \<and> eligible_count fr = 1 \<and> group_mode fr = ''FAILOVER'' \<and> pairwise fr = []"
    using fuse_group_mode
      [of "[\<lparr>sensor_id = ''a'', tr_s = Real (Fin 10), timestamp = Fin 0, source = ''SIM'',
            raw_value = Some (Fin 10)\<rparr>,
           \<lparr>sensor_id = ''b'', tr_s = AbsZero, timestamp = Fin 0, source = ''SIM'',
            raw_value = None\<rparr>,
           \<lparr>sensor_id = ''c'', tr_s = AbsZero, timestamp = Fin 0, source = ''SIM'',
            raw_value = None\<rparr>]" 2 "Fin 1" 0 None]
    by (auto simp add: Let_def)
  from a b c show ?thesis by blast
qed

text \<open>
  Claim C9. \<open>classify_raw\<close> returns a reading for every input. A missing or NaN raw
  value is classified \<open>AbsZero\<close>; a number whose magnitude is below the noise floor or
  above \<open>max_valid\<close> (the one bound a configuration carries) is classified \<open>MeasZero\<close>;
  every other number \<open>x\<close> is classified \<open>Real x\<close>. Without a configuration the noise
  floor is 0 and the bound is infinite.
\<close>

theorem classify_raw_spec:
  "(let r = classify_raw sid raw ts src config;
        nf = (case config of None \<Rightarrow> Fin 0 | Some c \<Rightarrow> noise_floor c);
        mv = (case config of None \<Rightarrow> PosInf | Some c \<Rightarrow> max_valid c)
    in sensor_id r = sid \<and> timestamp r = ts \<and> source r = src \<and> raw_value r = raw
     \<and> (raw = None \<or> raw = Some NaN \<longrightarrow> tr_s r = AbsZero)
     \<and> (raw = Some x \<and> x \<noteq> NaN \<and> (float_lt (float_abs x) nf \<or> float_gt (float_abs x) mv)
          \<longrightarrow> tr_s r = MeasZero)
     \<and> (raw = Some x \<and> x \<noteq> NaN \<and> \<not> float_lt (float_abs x) nf \<and> \<not> float_gt (float_abs x) mv
          \<longrightarrow> tr_s r = Real x))"
  by (cases raw) (auto simp add: classify_raw_def Let_def)

theorem classify_raw_spec_witness:
  "tr_s (classify_raw ''s1'' (Some NaN) (Fin 7) ''SIM'' None) = AbsZero
   \<and> tr_s (classify_raw ''s1'' (Some (Fin (1/2))) (Fin 7) ''SIM''
        (Some \<lparr>config_sensor_id = ''s1'', noise_floor = Fin 1, max_valid = Fin 100,
               weight = Fin 1\<rparr>))
       = MeasZero
   \<and> tr_s (classify_raw ''s1'' (Some (Fin (-200))) (Fin 7) ''SIM''
        (Some \<lparr>config_sensor_id = ''s1'', noise_floor = Fin 1, max_valid = Fin 100,
               weight = Fin 1\<rparr>))
       = MeasZero
   \<and> tr_s (classify_raw ''s1'' (Some (Fin 5)) (Fin 7) ''SIM'' None) = Real (Fin 5)
   \<and> tr_s (classify_raw ''s1'' (Some PosInf) (Fin 7) ''SIM'' None) = Real PosInf"
  using classify_raw_spec [of "''s1''" "Some NaN" "Fin 7" "''SIM''" None NaN]
    classify_raw_spec [of "''s1''" "Some (Fin (1/2))" "Fin 7" "''SIM''"
        "Some \<lparr>config_sensor_id = ''s1'', noise_floor = Fin 1, max_valid = Fin 100,
               weight = Fin 1\<rparr>"
        "Fin (1/2)"]
    classify_raw_spec [of "''s1''" "Some (Fin (-200))" "Fin 7" "''SIM''"
        "Some \<lparr>config_sensor_id = ''s1'', noise_floor = Fin 1, max_valid = Fin 100,
               weight = Fin 1\<rparr>"
        "Fin (-200)"]
    classify_raw_spec [of "''s1''" "Some (Fin 5)" "Fin 7" "''SIM''" None "Fin 5"]
    classify_raw_spec [of "''s1''" "Some PosInf" "Fin 7" "''SIM''" None PosInf]
  by (simp add: Let_def float_gt_def)

section \<open>Properties of the windowed decider\<close>

lemma fuse_group_total: "\<exists>fr. fuse_group readings req eps maxd opts = Inr fr"
proof -
  obtain fsum where fsum: "sum_s (map tr_s readings) = Inr fsum"
    by (simp add: sum_s_foldl)
  obtain fused where fused: "avg_s (map tr_s readings) = Inr fused"
    using avg_s_total by blast
  obtain ps where ps: "all_pairwise readings eps = Inr ps"
    using all_pairwise_spec by blast
  show ?thesis
    unfolding fuse_group_def Let_def fsum fused ps by simp
qed

lemma suffix_loop_takeWhile:
  "suffix_loop xs label c = c + int (length (takeWhile (\<lambda>x. x = label) xs))"
  by (induction xs arbitrary: c) simp_all

lemma consecutive_suffix_run: "consecutive_suffix hist label = trailing_run hist label"
  by (simp add: consecutive_suffix_def suffix_loop_takeWhile trailing_run_def)

lemma decide_group_total: "\<exists>out0. decide_group grp tbs = Inr out0"
proof -
  obtain fr where "fuse_group (List.map_filter tbs (sensors grp)) (required_eligible grp) (agree_eps grp)
        (max_outliers grp) (Some (optional_sensors grp)) = Inr fr"
    using fuse_group_total by blast
  then show ?thesis by (simp add: decide_group_def)
qed

lemma update_eq:
  assumes ok: "window_state d (group_name grp) \<noteq> None \<or> 0 \<le> max_history (params d)"
    and dg: "decide_group grp tbs = Inr out0"
    and st: "st = (case window_state d (group_name grp) of
                     Some s0 \<Rightarrow> s0
                   | None \<Rightarrow> \<lparr>history = [], history_maxlen = max_history (params d),
                               stable_mode = ''OK''\<rparr>)"
    and st': "st' = window_step (params d) st (group_mode (fusion out0))"
  shows "update d grp tbs =
        Inr (out0\<lparr>stable_group_mode := Some (stable_mode st'),
                  base_group_mode := Some (group_mode (fusion out0))\<rparr>,
             d\<lparr>window_state := (window_state d)(group_name grp \<mapsto> st')\<rparr>)"
proof -
  have gs: "\<exists>d1. get_state d (group_name grp) = Inr (st, d1) \<and> params d1 = params d
      \<and> d1\<lparr>window_state := (window_state d1)(group_name grp \<mapsto> st')\<rparr>
          = d\<lparr>window_state := (window_state d)(group_name grp \<mapsto> st')\<rparr>"
    using ok by (cases "window_state d (group_name grp)") (auto simp add: get_state_def st Let_def)
  then obtain d1 where d1: "get_state d (group_name grp) = Inr (st, d1)"
    and pd1: "params d1 = params d"
    and wd1: "d1\<lparr>window_state := (window_state d1)(group_name grp \<mapsto> st')\<rparr>
          = d\<lparr>window_state := (window_state d)(group_name grp \<mapsto> st')\<rparr>"
    by blast
  have mem: "stable_mode st \<in> {''DEGRADED'', ''INCONSISTENT'', ''FAILOVER'', ''REDUCED''}
     \<longleftrightarrow> stable_mode st = ''DEGRADED'' \<or> stable_mode st = ''INCONSISTENT''
          \<or> stable_mode st = ''FAILOVER'' \<or> stable_mode st = ''REDUCED''"
    by blast
  define hist0 where
    "hist0 = deque_append (history_maxlen st) (history st) (group_mode (fusion out0))"
  define stab0 where "stab0 =
     (if consecutive_suffix hist0 ''FAILOVER'' \<ge> failover_k (params d) then ''FAILOVER''
      else if consecutive_suffix hist0 ''INCONSISTENT'' \<ge> inconsistent_k (params d) then ''INCONSISTENT''
      else if consecutive_suffix hist0 ''DEGRADED'' \<ge> degraded_k (params d) then ''DEGRADED''
      else if consecutive_suffix hist0 ''REDUCED'' \<ge> reduced_k (params d) then ''REDUCED''
      else if stable_mode st \<in> {''DEGRADED'', ''INCONSISTENT'', ''FAILOVER'', ''REDUCED''}
        then (if consecutive_suffix hist0 ''OK'' \<ge> ok_recover_k (params d) then ''OK''
              else stable_mode st)
      else ''OK'')"
  have step: "st\<lparr>history := hist0, stable_mode := stab0\<rparr> = st'"
    unfolding st' window_step_def stable_spec_def stab0_def hist0_def
      consecutive_suffix_run deque_append_def Let_def mem
    by (rule refl)
  have sm: "stab0 = stable_mode st'"
    unfolding step [symmetric] by simp
  show ?thesis
    unfolding update_def dg d1 sum.case prod.case
    unfolding Let_def pd1 hist0_def [symmetric]
    unfolding stab0_def [symmetric]
    unfolding step
    unfolding wd1 sm
    by (rule refl)
qed


lemma trailing_run_simps:
  "trailing_run [] m = 0"
  "trailing_run (xs @ [x]) m = (if x = m then 1 + trailing_run xs m else 0)"
  by (simp_all add: trailing_run_def)

lemma mode_neqs:
  "''DEGRADED'' \<noteq> ''FAILOVER''" "''DEGRADED'' \<noteq> ''INCONSISTENT''"
  "''DEGRADED'' \<noteq> ''REDUCED''" "''DEGRADED'' \<noteq> ''OK''" "''OK'' \<noteq> ''DEGRADED''"
  "''OK'' \<noteq> ''INCONSISTENT''" "''OK'' \<noteq> ''FAILOVER''" "''OK'' \<noteq> ''REDUCED''"
  by simp_all

lemma three_degraded_ticks:
  assumes fresh: "window_state e (group_name g) = None"
    and mh: "3 \<le> max_history (params e)"
    and dk: "degraded_k (params e) = 3"
    and fk: "0 < failover_k (params e)"
    and ik: "0 < inconsistent_k (params e)"
    and rk: "0 < reduced_k (params e)"
    and o1: "decide_group g t1 = Inr o1" "group_mode (fusion o1) = ''DEGRADED''"
    and o2: "decide_group g t2 = Inr o2" "group_mode (fusion o2) = ''DEGRADED''"
    and o3: "decide_group g t3 = Inr o3" "group_mode (fusion o3) = ''DEGRADED''"
  shows "\<exists>r1 e1 r2 e2 r3 e3.
           update e g t1 = Inr (r1, e1) \<and> stable_group_mode r1 = Some ''OK''
         \<and> update e1 g t2 = Inr (r2, e2) \<and> stable_group_mode r2 = Some ''OK''
         \<and> update e2 g t3 = Inr (r3, e3) \<and> stable_group_mode r3 = Some ''DEGRADED''"
proof -
  define p where "p = params e"
  define s0 where "s0 = \<lparr>history = [], history_maxlen = max_history p, stable_mode = ''OK''\<rparr>"
  define s1 where "s1 = window_step p s0 ''DEGRADED''"
  define s2 where "s2 = window_step p s1 ''DEGRADED''"
  define s3 where "s3 = window_step p s2 ''DEGRADED''"
  define e1 where "e1 = e\<lparr>window_state := (window_state e)(group_name g \<mapsto> s1)\<rparr>"
  define e2 where "e2 = e1\<lparr>window_state := (window_state e1)(group_name g \<mapsto> s2)\<rparr>"
  define e3 where "e3 = e2\<lparr>window_state := (window_state e2)(group_name g \<mapsto> s3)\<rparr>"
  have n3: "nat (max_history p) \<ge> 3" using mh by (simp add: p_def)
  have h1: "history s1 = [''DEGRADED''] \<and> history_maxlen s1 = max_history p \<and> stable_mode s1 = ''OK''"
    using n3 dk fk ik rk
    by (simp add: s1_def s0_def window_step_def stable_spec_def trailing_run_def p_def)
  have h2: "history s2 = [''DEGRADED'', ''DEGRADED''] \<and> history_maxlen s2 = max_history p
      \<and> stable_mode s2 = ''OK''"
    using n3 dk fk ik rk h1
    by (simp add: s2_def window_step_def stable_spec_def trailing_run_def p_def)
  have h3: "stable_mode s3 = ''DEGRADED''"
    using n3 dk fk ik rk h2
    by (simp add: s3_def window_step_def stable_spec_def trailing_run_def p_def)
  have u1: "update e g t1 =
      Inr (o1\<lparr>stable_group_mode := Some (stable_mode s1),
              base_group_mode := Some (group_mode (fusion o1))\<rparr>, e1)"
    unfolding e1_def
    by (rule update_eq [OF _ o1(1), where st = s0]) (use mh in \<open>simp_all add: fresh s0_def p_def s1_def o1(2)\<close>)
  have w1: "window_state e1 (group_name g) = Some s1" "params e1 = p"
    by (simp_all add: e1_def p_def)
  have u2: "update e1 g t2 =
      Inr (o2\<lparr>stable_group_mode := Some (stable_mode s2),
              base_group_mode := Some (group_mode (fusion o2))\<rparr>, e2)"
    unfolding e2_def
    by (rule update_eq [OF _ o2(1), where st = s1]) (simp_all add: w1 s2_def o2(2))
  have w2: "window_state e2 (group_name g) = Some s2" "params e2 = p"
    by (simp_all add: e2_def w1)
  have u3: "update e2 g t3 =
      Inr (o3\<lparr>stable_group_mode := Some (stable_mode s3),
              base_group_mode := Some (group_mode (fusion o3))\<rparr>, e3)"
    unfolding e3_def
    by (rule update_eq [OF _ o3(1), where st = s2]) (simp_all add: w2 s3_def o3(2))
  show ?thesis
    using u1 u2 u3 h1 h2 h3 by simp
qed

lemma demo_decide:
  "\<exists>o1. decide_group demo_group demo_readings = Inr o1 \<and> group_mode (fusion o1) = ''DEGRADED''"
  by (simp add: decide_group_def demo_group_def demo_readings_def List.map_filter_simps
      fuse_group_def Let_def sum_s_def avg_s_def count_s_def add_def div_s_def all_pairwise_def
      pairwise_consistency_def info_level_def derive_sensor_alerts_def sensor_alert_of_def count_if_def
      float_of_int_def)

text \<open>
  Claim C3. An update of the windowed decider appends the raw mode of the tick to the
  bounded history of the group (a new group starts with an empty history and the stable
  mode \<open>OK\<close>) and recomputes the stable mode from the trailing runs: the first of
  \<open>FAILOVER\<close>, \<open>INCONSISTENT\<close>, \<open>DEGRADED\<close>, \<open>REDUCED\<close> whose run reaches its threshold;
  otherwise, from a stable mode other than \<open>OK\<close>, \<open>OK\<close> once the run of \<open>OK\<close> reaches
  \<open>ok_recover_k\<close> and the old stable mode until then; otherwise \<open>OK\<close>. The update
  returns whenever the group has a window already or \<open>max_history\<close> is not negative.
  With \<open>degraded_k = 3\<close>, positive thresholds and room for three entries, a new group's
  stable mode is \<open>OK\<close> after one and two \<open>DEGRADED\<close> ticks and \<open>DEGRADED\<close> after the
  third.
\<close>

theorem windowed_update:
  "(window_state d (group_name grp) \<noteq> None \<or> 0 \<le> max_history (params d) \<longrightarrow>
      (\<exists>out0 st'.
          decide_group grp tbs = Inr out0
        \<and> update d grp tbs =
            Inr (out0\<lparr>stable_group_mode := Some (stable_mode st'),
                      base_group_mode := Some (group_mode (fusion out0))\<rparr>,
                 d\<lparr>window_state := (window_state d)(group_name grp \<mapsto> st')\<rparr>)
        \<and> (let st = (case window_state d (group_name grp) of
                        Some s0 \<Rightarrow> s0
                      | None \<Rightarrow> \<lparr>history = [], history_maxlen = max_history (params d),
                                  stable_mode = ''OK''\<rparr>);
                h = history st @ [group_mode (fusion out0)];
                hist = drop (length h - nat (history_maxlen st)) h
            in history st' = hist
             \<and> history_maxlen st' = history_maxlen st
             \<and> stable_mode st' = stable_spec (params d) (stable_mode st) hist)))
   \<and> (window_state e (group_name g) = None \<and> 3 \<le> max_history (params e)
        \<and> degraded_k (params e) = 3 \<and> 0 < failover_k (params e)
        \<and> 0 < inconsistent_k (params e) \<and> 0 < reduced_k (params e)
        \<and> decide_group g t1 = Inr o1 \<and> group_mode (fusion o1) = ''DEGRADED''
        \<and> decide_group g t2 = Inr o2 \<and> group_mode (fusion o2) = ''DEGRADED''
        \<and> decide_group g t3 = Inr o3 \<and> group_mode (fusion o3) = ''DEGRADED'' \<longrightarrow>
      (\<exists>r1 e1 r2 e2 r3 e3.
           update e g t1 = Inr (r1, e1) \<and> stable_group_mode r1 = Some ''OK''
         \<and> update e1 g t2 = Inr (r2, e2) \<and> stable_group_mode r2 = Some ''OK''
         \<and> update e2 g t3 = Inr (r3, e3) \<and> stable_group_mode r3 = Some ''DEGRADED''))"
proof (intro conjI impI)
  assume ok: "window_state d (group_name grp) \<noteq> None \<or> 0 \<le> max_history (params d)"
  obtain out0 where dg: "decide_group grp tbs = Inr out0"
    using decide_group_total by blast
  define st where "st = (case window_state d (group_name grp) of
                        Some s0 \<Rightarrow> s0
                      | None \<Rightarrow> \<lparr>history = [], history_maxlen = max_history (params d),
                                  stable_mode = ''OK''\<rparr>)"
  define st' where "st' = window_step (params d) st (group_mode (fusion out0))"
  have u: "update d grp tbs =
            Inr (out0\<lparr>stable_group_mode := Some (stable_mode st'),
                      base_group_mode := Some (group_mode (fusion out0))\<rparr>,
                 d\<lparr>window_state := (window_state d)(group_name grp \<mapsto> st')\<rparr>)"
    by (rule update_eq [OF ok dg st_def st'_def])
  have f: "history st' = drop (length (history st @ [group_mode (fusion out0)]) - nat (history_maxlen st))
                           (history st @ [group_mode (fusion out0)])
      \<and> history_maxlen st' = history_maxlen st
      \<and> stable_mode st' = stable_spec (params d) (stable_mode st)
           (drop (length (history st @ [group_mode (fusion out0)]) - nat (history_maxlen st))
                           (history st @ [group_mode (fusion out0)]))"
    by (simp add: st'_def window_step_def Let_def)
  show "\<exists>out0 st'.
          decide_group grp tbs = Inr out0
        \<and> update d grp tbs =
            Inr (out0\<lparr>stable_group_mode := Some (stable_mode st'),
                      base_group_mode := Some (group_mode (fusion out0))\<rparr>,
                 d\<lparr>window_state := (window_state d)(group_name grp \<mapsto> st')\<rparr>)
        \<and> (let st = (case window_state d (group_name grp) of
                        Some s0 \<Rightarrow> s0
                      | None \<Rightarrow> \<lparr>history = [], history_maxlen = max_history (params d),
                                  stable_mode = ''OK''\<rparr>);
                h = history st @ [group_mode (fusion out0)];
                hist = drop (length h - nat (history_maxlen st)) h
            in history st' = hist
             \<and> history_maxlen st' = history_maxlen st
             \<and> stable_mode st' = stable_spec (params d) (stable_mode st) hist)"
    apply (rule exI [of _ out0])
    apply (rule exI [of _ st'])
    unfolding Let_def st_def [symmetric]
    using dg u f by blast
next
  assume a: "window_state e (group_name g) = None \<and> 3 \<le> max_history (params e)
        \<and> degraded_k (params e) = 3 \<and> 0 < failover_k (params e)
        \<and> 0 < inconsistent_k (params e) \<and> 0 < reduced_k (params e)
        \<and> decide_group g t1 = Inr o1 \<and> group_mode (fusion o1) = ''DEGRADED''
        \<and> decide_group g t2 = Inr o2 \<and> group_mode (fusion o2) = ''DEGRADED''
        \<and> decide_group g t3 = Inr o3 \<and> group_mode (fusion o3) = ''DEGRADED''"
  show "\<exists>r1 e1 r2 e2 r3 e3.
           update e g t1 = Inr (r1, e1) \<and> stable_group_mode r1 = Some ''OK''
         \<and> update e1 g t2 = Inr (r2, e2) \<and> stable_group_mode r2 = Some ''OK''
         \<and> update e2 g t3 = Inr (r3, e3) \<and> stable_group_mode r3 = Some ''DEGRADED''"
    by (rule three_degraded_ticks [of e g t1 o1 t2 o2 t3 o3]) (use a in simp_all)
qed

theorem windowed_update_witness:
  "\<exists>r1 e1 r2 e2 r3 e3.
       update (new_decider None) demo_group demo_readings = Inr (r1, e1)
     \<and> stable_group_mode r1 = Some ''OK''
     \<and> update e1 demo_group demo_readings = Inr (r2, e2)
     \<and> stable_group_mode r2 = Some ''OK''
     \<and> update e2 demo_group demo_readings = Inr (r3, e3)
     \<and> stable_group_mode r3 = Some ''DEGRADED''"
proof -
  obtain o1 where o1: "decide_group demo_group demo_readings = Inr o1"
    "group_mode (fusion o1) = ''DEGRADED''"
    using demo_decide by blast
  have pre: "window_state (new_decider None) (group_name demo_group) = None
     \<and> 3 \<le> max_history (params (new_decider None))
     \<and> degraded_k (params (new_decider None)) = 3 \<and> 0 < failover_k (params (new_decider None))
     \<and> 0 < inconsistent_k (params (new_decider None)) \<and> 0 < reduced_k (params (new_decider None))"
    by (simp add: new_decider_def default_params_def)
  from windowed_update [of "new_decider None" demo_group demo_readings "new_decider None" demo_group
      demo_readings o1 demo_readings o1 demo_readings o1] pre o1
  show ?thesis by blast
qed

end
